theory Spec2Isabelle
  imports Complex_Main
begin

section \<open>Numbers and errors of the host language\<close>

text \<open>
  The two page scripts compute with JavaScript numbers. A number is modelled as a real
  or as \<open>NaN\<close>; rounding to double or single precision and the infinities are not
  modelled (no division of the scripts that is modelled here has a zero divisor), except
  in the section on bar heights in double precision, which has both.
  \<open>NaN\<close> is kept because reading an array past its end gives \<open>undefined\<close>, which
  arithmetic turns into \<open>NaN\<close>.
\<close>

datatype jsnum = Number real | NaN

datatype js_error = TypeError | RangeError | SyntaxError | NetworkError

text \<open>\<open>values[i]\<close> used as a number: \<open>undefined\<close> past the end of the array.\<close>

definition values_at :: "real list \<Rightarrow> nat \<Rightarrow> jsnum" where
  "values_at values i = (if i < length values then Number (values ! i) else NaN)"

text \<open>\<open>x / d\<close>, \<open>x * c\<close> and \<open>c + x\<close> with a numeric constant on one side.\<close>

fun jdiv :: "jsnum \<Rightarrow> real \<Rightarrow> jsnum" where
  "jdiv (Number x) d = Number (x / d)"
| "jdiv NaN d = NaN"

fun jmul :: "jsnum \<Rightarrow> real \<Rightarrow> jsnum" where
  "jmul (Number x) c = Number (x * c)"
| "jmul NaN c = NaN"

fun jadd :: "real \<Rightarrow> jsnum \<Rightarrow> jsnum" where
  "jadd c (Number x) = Number (c + x)"
| "jadd c NaN = NaN"

section \<open>The bar chart (visualization.js): state\<close>

datatype buffer = VertexBuffer | IndexBuffer | InstanceBuffer | UniformBuffer

text \<open>
  What the script asks of the page and of the GPU device, in the order it asks.
  \<open>BeginRenderPass c d\<close> records the size of the canvas texture used as colour
  attachment and the size of the depth texture; \<open>DrawIndexed n k d\<close> records the index
  count, the instance count and the content of the instance buffer that the draw reads.
  Whether the device accepts a request (its validation of a shader, a pipeline or a
  pass) is not modelled.
\<close>

datatype effect =
    ShowMessage
  | HideCanvas
  | Configure nat nat
  | CreateBuffer buffer
  | WriteBuffer buffer
  | CreateShaderModule
  | CreateRenderPipeline
  | CreateTexture nat nat
  | DestroyTexture
  | CreateBindGroup
  | SetInterval
  | Fetch
  | BeginRenderPass "nat \<times> nat" "nat \<times> nat"
  | DrawIndexed nat nat "jsnum list"
  | Submit
  | RequestAnimationFrame

record viz_state =
  canvas_width :: nat
  canvas_height :: nat
  depthTexture :: "nat \<times> nat"
  instanceData :: "jsnum list"
  instanceBuffer :: "jsnum list"
  rotation :: real
  trace :: "effect list"

definition emit :: "effect \<Rightarrow> viz_state \<Rightarrow> viz_state" where
  "emit e s = s\<lparr>trace := trace s @ [e]\<rparr>"

definition barCount :: nat where
  "barCount = 10"

definition barSpacing :: real where
  "barSpacing = 12 / 100"

text \<open>
  Lines 70 to 81: a zero-filled array of \<open>barCount * 6\<close> numbers, then one pass that
  writes offset.xyz and scale.xyz of every bar.
\<close>

definition init_record :: "nat \<Rightarrow> jsnum list \<Rightarrow> jsnum list" where
  "init_record i d =
     (let x = (real i - (real barCount - 1) / 2) * barSpacing in
      d[i * 6 + 0 := Number x,
        i * 6 + 1 := Number 0,
        i * 6 + 2 := Number 0,
        i * 6 + 3 := Number (8 / 100),
        i * 6 + 4 := Number (5 / 10),
        i * 6 + 5 := Number (8 / 100)])"

definition initial_instanceData :: "jsnum list" where
  "initial_instanceData = fold init_record [0..<barCount] (replicate (barCount * 6) (Number 0))"

section \<open>The bar chart: binding magnitudes to bar heights\<close>

text \<open>\<open>Math.max(...values, 1)\<close>.\<close>

definition maxValue :: "real list \<Rightarrow> real" where
  "maxValue values = foldr max values 1"

text \<open>The body of the loop of \<open>updateInstanceScales\<close> for bar \<open>i\<close>.\<close>

definition scale_bar :: "real list \<Rightarrow> nat \<Rightarrow> jsnum list \<Rightarrow> jsnum list" where
  "scale_bar values i d =
     (let normalized = jdiv (values_at values i) (maxValue values) in
      d[i * 6 + 4 := jadd (5 / 100) (jmul normalized (9 / 10))])"

text \<open>
  \<open>updateInstanceScales\<close> (lines 267 to 275). It has no \<open>throw\<close> and no check of
  the length of \<open>values\<close>; the result is a sum only because its caller runs it inside
  a \<open>try\<close>.
\<close>

definition updateInstanceScales :: "real list \<Rightarrow> viz_state \<Rightarrow> js_error + viz_state" where
  "updateInstanceScales values s =
     (let d = fold (scale_bar values) [0..<barCount] (instanceData s) in
      Inr (emit (WriteBuffer InstanceBuffer) (s\<lparr>instanceData := d, instanceBuffer := d\<rparr>)))"

text \<open>
  Line 268 spreads \<open>values\<close> into the arguments of \<open>Math.max\<close>, one argument per
  element and the \<open>1\<close> after them. An engine accepts only so many arguments in one
  call, \<open>max_args\<close>, and throws a \<open>RangeError\<close> beyond; nothing has been written
  then. \<open>updateInstanceScales\<close> above is the function for a sequence within that limit.
\<close>

definition updateInstanceScales_engine ::
  "nat \<Rightarrow> real list \<Rightarrow> viz_state \<Rightarrow> js_error + viz_state" where
  "updateInstanceScales_engine max_args values s =
     (if max_args < length values + 1 then Inl RangeError
      else updateInstanceScales values s)"

text \<open>\<open>scale.y\<close> of bar \<open>i\<close>, element \<open>i * 6 + 4\<close> of the interleaved array.\<close>

definition scale_y :: "jsnum list \<Rightarrow> nat \<Rightarrow> jsnum" where
  "scale_y d i = d ! (i * 6 + 4)"

text \<open>The six numbers the creation loop stores for bar \<open>i\<close>.\<close>

definition created :: "nat \<Rightarrow> jsnum list" where
  "created i =
     [Number ((real i - (real barCount - 1) / 2) * barSpacing), Number 0, Number 0,
      Number (8 / 100), Number (5 / 10), Number (8 / 100)]"

text \<open>What one update stores as \<open>scale.y\<close> of bar \<open>i\<close>.\<close>

definition new_scale :: "real list \<Rightarrow> nat \<Rightarrow> jsnum" where
  "new_scale values i =
     (if i < length values then Number (5 / 100 + values ! i / maxValue values * (9 / 10)) else NaN)"

text \<open>Successive updates, as the periodic refresh makes them; the first error stops them.\<close>

fun updates :: "real list list \<Rightarrow> viz_state \<Rightarrow> js_error + viz_state" where
  "updates [] s = Inr s"
| "updates (values # rest) s =
     (case updateInstanceScales values s of Inl e \<Rightarrow> Inl e | Inr s' \<Rightarrow> updates rest s')"

section \<open>The bar chart: bar heights in double precision\<close>

text \<open>
  The arithmetic of lines 268 to 272 with its rounding. A double is a finite number, an
  infinity or \<open>NaN\<close>; the sign of a zero is not modelled. \<open>rd\<close> rounds an exact
  result to the nearest double as if the exponent had no upper bound, and \<open>fr\<close> does
  the same for single precision, the format of the \<open>Float32Array\<close>; both are
  parameters. A rounded result of magnitude \<open>2 ^ 1024\<close> or more (\<open>2 ^ 128\<close> in single
  precision) is replaced by the infinity of its sign.
\<close>

datatype xnum = Fin real | PInf | NInf | XNaN

definition dbl :: "(real \<Rightarrow> real) \<Rightarrow> real \<Rightarrow> xnum" where
  "dbl rd x =
     (let y = rd x in
      if 2 ^ 1024 \<le> \<bar>y\<bar> then (if 0 < y then PInf else NInf) else Fin y)"

text \<open>\<open>Math.max\<close> of two numbers, and \<open>Math.max(...values, 1)\<close>.\<close>

fun xmax :: "xnum \<Rightarrow> xnum \<Rightarrow> xnum" where
  "xmax XNaN b = XNaN"
| "xmax a XNaN = XNaN"
| "xmax PInf b = PInf"
| "xmax a PInf = PInf"
| "xmax NInf b = b"
| "xmax a NInf = a"
| "xmax (Fin x) (Fin y) = Fin (max x y)"

definition xmaxValue :: "xnum list \<Rightarrow> xnum" where
  "xmaxValue values = foldr xmax values (Fin 1)"

text \<open>\<open>values[i]\<close>: \<open>undefined\<close> past the end, which the division turns into \<open>NaN\<close>.\<close>

definition xvalues_at :: "xnum list \<Rightarrow> nat \<Rightarrow> xnum" where
  "xvalues_at values i = (if i < length values then values ! i else XNaN)"

text \<open>\<open>a / b\<close>.\<close>

fun xdiv :: "(real \<Rightarrow> real) \<Rightarrow> xnum \<Rightarrow> xnum \<Rightarrow> xnum" where
  "xdiv rd XNaN b = XNaN"
| "xdiv rd a XNaN = XNaN"
| "xdiv rd (Fin x) (Fin y) =
     (if y = 0 then (if x = 0 then XNaN else if 0 < x then PInf else NInf)
      else dbl rd (x / y))"
| "xdiv rd (Fin x) b = Fin 0"
| "xdiv rd PInf (Fin y) = (if 0 \<le> y then PInf else NInf)"
| "xdiv rd NInf (Fin y) = (if 0 \<le> y then NInf else PInf)"
| "xdiv rd a b = XNaN"

text \<open>\<open>a * k\<close> and \<open>k + a\<close> for a finite constant \<open>k\<close>.\<close>

fun xmul :: "(real \<Rightarrow> real) \<Rightarrow> xnum \<Rightarrow> real \<Rightarrow> xnum" where
  "xmul rd (Fin x) k = dbl rd (x * k)"
| "xmul rd PInf k = (if k = 0 then XNaN else if 0 < k then PInf else NInf)"
| "xmul rd NInf k = (if k = 0 then XNaN else if 0 < k then NInf else PInf)"
| "xmul rd XNaN k = XNaN"

fun xadd :: "(real \<Rightarrow> real) \<Rightarrow> real \<Rightarrow> xnum \<Rightarrow> xnum" where
  "xadd rd k (Fin x) = dbl rd (k + x)"
| "xadd rd k PInf = PInf"
| "xadd rd k NInf = NInf"
| "xadd rd k XNaN = XNaN"

text \<open>The store into the \<open>Float32Array\<close>.\<close>

fun store32 :: "(real \<Rightarrow> real) \<Rightarrow> xnum \<Rightarrow> xnum" where
  "store32 fr (Fin x) =
     (let y = fr x in
      if 2 ^ 128 \<le> \<bar>y\<bar> then (if 0 < y then PInf else NInf) else Fin y)"
| "store32 fr a = a"

text \<open>
  What the loop of \<open>updateInstanceScales\<close> stores as \<open>scale.y\<close> of bar \<open>i\<close>. The
  literals \<open>0.05\<close> and \<open>0.9\<close> are the doubles nearest to them.
\<close>

definition rounded_scale_y :: "(real \<Rightarrow> real) \<Rightarrow> (real \<Rightarrow> real) \<Rightarrow> xnum list \<Rightarrow> nat \<Rightarrow> xnum" where
  "rounded_scale_y rd fr values i =
     (let maxValue = xmaxValue values;
          normalized = xdiv rd (xvalues_at values i) maxValue
      in store32 fr (xadd rd (rd (5 / 100)) (xmul rd normalized (rd (9 / 10)))))"

text \<open>The element-wise product \<open>c * magnitudes\<close>, computed in doubles.\<close>

definition scaled :: "(real \<Rightarrow> real) \<Rightarrow> real \<Rightarrow> real list \<Rightarrow> xnum list" where
  "scaled rd c values = map (\<lambda>v. dbl rd (c * v)) values"

section \<open>The bar chart: fetching data\<close>

text \<open>
  The body of the response as \<open>resp.json()\<close> delivers it. An object keeps its members
  in the order of the text; a repeated key reads as its last occurrence.
\<close>

datatype json =
    JNull
  | JBool bool
  | JNumber real
  | JString string
  | JArray "json list"
  | JObject "(string \<times> json) list"

text \<open>
  \<open>body = None\<close>: \<open>resp.json()\<close> rejects, the text is not JSON. A fetch outcome of
  \<open>None\<close>: \<open>fetch\<close> itself rejects (network error).
\<close>

record response =
  ok :: bool
  body :: "json option"

text \<open>\<open>data.bpi\<close>: a property read on \<open>null\<close> throws; \<open>None\<close> is \<open>undefined\<close>.\<close>

fun root_member :: "json \<Rightarrow> string \<Rightarrow> js_error + json option" where
  "root_member JNull k = Inl TypeError"
| "root_member (JObject kvs) k = Inr (map_of (rev kvs) k)"
| "root_member v k = Inr None"

text \<open>\<open>v?.k\<close>: \<open>undefined\<close> when \<open>v\<close> is \<open>undefined\<close> or \<open>null\<close>.\<close>

fun opt_member :: "json option \<Rightarrow> string \<Rightarrow> json option" where
  "opt_member None k = None"
| "opt_member (Some JNull) k = None"
| "opt_member (Some (JObject kvs)) k = map_of (rev kvs) k"
| "opt_member (Some v) k = None"

text \<open>
  \<open>v?.replace(/,/g, '')\<close>: only a string has a \<open>replace\<close> method; on any other
  value that is not \<open>undefined\<close> or \<open>null\<close> the call throws.
\<close>

fun opt_replace :: "json option \<Rightarrow> js_error + string option" where
  "opt_replace None = Inr None"
| "opt_replace (Some JNull) = Inr None"
| "opt_replace (Some (JString s)) = Inr (Some (filter (\<lambda>c. c \<noteq> CHR '','') s))"
| "opt_replace (Some v) = Inl TypeError"

definition rate_text :: "json \<Rightarrow> js_error + string option" where
  "rate_text data =
     (case root_member data ''bpi'' of
        Inl e \<Rightarrow> Inl e
      | Inr bpi \<Rightarrow> opt_replace (opt_member (opt_member bpi ''USD'') ''rate''))"

text \<open>
  Lines 283 to 285. \<open>parseFloat\<close> is the host's and is a parameter; of \<open>undefined\<close>
  it is \<open>NaN\<close>. \<open>rnd\<close> gives the successive results of \<open>Math.random()\<close> within one
  run of \<open>fetchDataAndUpdate\<close>; the second component of the result counts the draws made.
\<close>

definition usd_values ::
  "(string \<Rightarrow> jsnum) \<Rightarrow> json \<Rightarrow> (nat \<Rightarrow> real) \<Rightarrow> js_error + (real list \<times> nat)" where
  "usd_values parseFloat data rnd =
     (case rate_text data of
        Inl e \<Rightarrow> Inl e
      | Inr txt \<Rightarrow>
          (let parsed = (case txt of None \<Rightarrow> NaN | Some t \<Rightarrow> parseFloat t);
               (usdRate, k) =
                 (case parsed of
                    Number r \<Rightarrow> if r = 0 then (rnd 0 * 50000, 1) else (r, 0)
                  | NaN \<Rightarrow> (rnd 0 * 50000, 1))
           in Inr (map (\<lambda>j. usdRate * (8 / 10 + rnd j * (4 / 10))) [k..<k + barCount],
                   k + barCount)))"

text \<open>Line 293, drawing from position \<open>k\<close> on.\<close>

definition randomValues :: "(nat \<Rightarrow> real) \<Rightarrow> nat \<Rightarrow> real list" where
  "randomValues rnd k = map (\<lambda>j. rnd j * 100) [k..<k + barCount]"

text \<open>
  The \<open>try\<close> block up to line 285: \<open>Some\<close> of the array \<open>values\<close> when control reaches
  the call of line 286, \<open>None\<close> when it leaves the block before (the fetch rejected,
  \<open>resp.ok\<close> is false, or an exception was caught).
\<close>

definition try_values ::
  "(string \<Rightarrow> jsnum) \<Rightarrow> response option \<Rightarrow> (nat \<Rightarrow> real) \<Rightarrow> (real list \<times> nat) option" where
  "try_values parseFloat outcome rnd =
     (case outcome of
        None \<Rightarrow> None
      | Some resp \<Rightarrow>
          if ok resp then
            (case body resp of
               None \<Rightarrow> None
             | Some data \<Rightarrow>
                 (case usd_values parseFloat data rnd of Inl e \<Rightarrow> None | Inr r \<Rightarrow> Some r))
          else None)"

definition fetchDataAndUpdate ::
  "(string \<Rightarrow> jsnum) \<Rightarrow> response option \<Rightarrow> (nat \<Rightarrow> real) \<Rightarrow> viz_state \<Rightarrow> js_error + viz_state" where
  "fetchDataAndUpdate parseFloat outcome rnd s =
     (case try_values parseFloat outcome rnd of
        Some (values, k) \<Rightarrow>
          (case updateInstanceScales values s of
             Inr s' \<Rightarrow> Inr s'
           | Inl e \<Rightarrow> updateInstanceScales (randomValues rnd k) s)
      | None \<Rightarrow> updateInstanceScales (randomValues rnd 0) s)"

text \<open>The array that one run hands to \<open>updateInstanceScales\<close>.\<close>

definition magnitudes ::
  "(string \<Rightarrow> jsnum) \<Rightarrow> response option \<Rightarrow> (nat \<Rightarrow> real) \<Rightarrow> real list" where
  "magnitudes parseFloat outcome rnd =
     (case try_values parseFloat outcome rnd of
        Some (values, k) \<Rightarrow> values
      | None \<Rightarrow> randomValues rnd 0)"

text \<open>
  The outcomes of the fetch, as the specification sorts them. A well-formed successful
  response: the status is a success, the body is JSON, and the rate is there as a text
  that parses to a number other than zero. The local fallback of line 293 is reached on
  a network error, a non-success status, a body that is not JSON, or a body on which the
  extraction throws.
\<close>

definition well_formed :: "(string \<Rightarrow> jsnum) \<Rightarrow> response option \<Rightarrow> bool" where
  "well_formed parseFloat outcome =
     (case outcome of
        None \<Rightarrow> False
      | Some resp \<Rightarrow>
          ok resp \<and>
          (case body resp of
             None \<Rightarrow> False
           | Some data \<Rightarrow>
               (case rate_text data of
                  Inr (Some t) \<Rightarrow> (case parseFloat t of Number r \<Rightarrow> r \<noteq> 0 | NaN \<Rightarrow> False)
                | Inr None \<Rightarrow> False
                | Inl e \<Rightarrow> False)))"

definition extraction_fails :: "response option \<Rightarrow> bool" where
  "extraction_fails outcome =
     (case outcome of
        None \<Rightarrow> True
      | Some resp \<Rightarrow>
          (if ok resp then
             (case body resp of None \<Rightarrow> True | Some data \<Rightarrow> isl (rate_text data))
           else True))"

section \<open>The bar chart: start-up, resize and the render loop\<close>

text \<open>What the page offers when the script starts.\<close>

record host =
  gpu :: bool
  adapter :: bool
  message_el :: bool
  canvas_el :: bool
  client_pixels :: "nat \<times> nat"

text \<open>
  How a start-up ends: the early \<open>return\<close> of the branch without \<open>navigator.gpu\<close>, an
  exception (the promise rejects, and the script's last line logs it), or the running
  module state. The first two carry what had been done until then.
\<close>

datatype 'st init_result =
    Unsupported "effect list"
  | Threw js_error "effect list"
  | Running 'st

text \<open>
  The module state when start-up has run through with a canvas of \<open>w\<close> by \<open>ht\<close>
  pixels: buffers, pipeline and depth texture created, the first fetch under way, the
  first frame requested.
\<close>

definition started :: "nat \<Rightarrow> nat \<Rightarrow> viz_state" where
  "started w ht =
     \<lparr>canvas_width = w, canvas_height = ht, depthTexture = (w, ht),
      instanceData = initial_instanceData, instanceBuffer = initial_instanceData,
      rotation = 0,
      trace =
        [Configure w ht,
         CreateBuffer VertexBuffer, WriteBuffer VertexBuffer,
         CreateBuffer IndexBuffer, WriteBuffer IndexBuffer,
         CreateBuffer InstanceBuffer, WriteBuffer InstanceBuffer,
         CreateBuffer UniformBuffer,
         CreateShaderModule, CreateRenderPipeline,
         CreateTexture w ht,
         SetInterval, Fetch, RequestAnimationFrame]\<rparr>"

text \<open>
  \<open>initVisualization\<close> (lines 7 to 349). \<open>getElementById\<close> gives \<open>null\<close> for a
  missing element, and a property access on \<open>null\<close> throws. The canvas takes the size
  \<open>client_pixels\<close> in \<open>resizeCanvas\<close>.
\<close>

definition initVisualization :: "host \<Rightarrow> viz_state init_result" where
  "initVisualization h =
     (if \<not> gpu h then
        (if \<not> message_el h then Threw TypeError []
         else if \<not> canvas_el h then Threw TypeError [ShowMessage]
         else Unsupported [ShowMessage, HideCanvas])
      else if \<not> adapter h then Threw TypeError []
      else if \<not> canvas_el h then Threw TypeError []
      else Running (started (fst (client_pixels h)) (snd (client_pixels h))))"

text \<open>\<open>resizeCanvas\<close> on a resize event that leaves the canvas at \<open>w\<close> by \<open>ht\<close> pixels.\<close>

definition resizeCanvas :: "nat \<Rightarrow> nat \<Rightarrow> viz_state \<Rightarrow> viz_state" where
  "resizeCanvas w ht s = emit (Configure w ht) (s\<lparr>canvas_width := w, canvas_height := ht\<rparr>)"

text \<open>
  \<open>frame\<close> of visualization.js (lines 304 to 347). The content of the uniform buffer
  is not tracked. The depth attachment is the texture created at start-up.
\<close>

definition frame :: "viz_state \<Rightarrow> viz_state" where
  "frame s =
     (let s1 = s\<lparr>rotation := rotation s + 3 / 1000\<rparr>;
          s2 = emit (WriteBuffer UniformBuffer) s1;
          s3 = emit (BeginRenderPass (canvas_width s2, canvas_height s2) (depthTexture s2)) s2;
          s4 = emit CreateBindGroup s3;
          s5 = emit (DrawIndexed 36 barCount (instanceBuffer s4)) s4;
          s6 = emit Submit s5
      in emit RequestAnimationFrame s6)"

text \<open>
  The callbacks the event loop runs after start-up: a resize, an animation frame, and
  the completion of one run of \<open>fetchDataAndUpdate\<close> with the outcome of its fetch and
  its random draws.
\<close>

datatype event =
    Resize nat nat
  | Frame
  | FetchCompleted "response option" "nat \<Rightarrow> real"

fun step :: "(string \<Rightarrow> jsnum) \<Rightarrow> viz_state \<Rightarrow> event \<Rightarrow> viz_state" where
  "step parseFloat s (Resize w ht) = resizeCanvas w ht s"
| "step parseFloat s Frame = frame s"
| "step parseFloat s (FetchCompleted outcome rnd) =
     (case fetchDataAndUpdate parseFloat outcome rnd s of Inr s' \<Rightarrow> s' | Inl e \<Rightarrow> s)"

definition run :: "(string \<Rightarrow> jsnum) \<Rightarrow> viz_state \<Rightarrow> event list \<Rightarrow> viz_state" where
  "run parseFloat s evs = foldl (step parseFloat) s evs"

definition is_fetch :: "event \<Rightarrow> bool" where
  "is_fetch ev = (case ev of FetchCompleted outcome rnd \<Rightarrow> True | Resize w ht \<Rightarrow> False | Frame \<Rightarrow> False)"

section \<open>The cube viewer (viewer.js): start-up, resize and the render loop\<close>

record viewer_state =
  vcanvas_width :: nat
  vcanvas_height :: nat
  vdepthTexture :: "nat \<times> nat"
  then_time :: real
  vtrace :: "effect list"

definition vemit :: "effect \<Rightarrow> viewer_state \<Rightarrow> viewer_state" where
  "vemit e s = s\<lparr>vtrace := vtrace s @ [e]\<rparr>"

definition viewer_started :: "nat \<Rightarrow> nat \<Rightarrow> viewer_state" where
  "viewer_started w ht =
     \<lparr>vcanvas_width = w, vcanvas_height = ht, vdepthTexture = (w, ht),
      then_time = 0,
      vtrace =
        [Configure w ht,
         CreateBuffer VertexBuffer, WriteBuffer VertexBuffer,
         CreateBuffer IndexBuffer, WriteBuffer IndexBuffer,
         CreateBuffer UniformBuffer,
         CreateShaderModule, CreateRenderPipeline,
         CreateTexture w ht,
         CreateBindGroup, RequestAnimationFrame]\<rparr>"

text \<open>\<open>initWebGPU\<close> (lines 4 to 306 of the viewer script).\<close>

definition initWebGPU :: "host \<Rightarrow> viewer_state init_result" where
  "initWebGPU h =
     (if \<not> gpu h then
        (if \<not> message_el h then Threw TypeError []
         else if \<not> canvas_el h then Threw TypeError [ShowMessage]
         else Unsupported [ShowMessage, HideCanvas])
      else if \<not> adapter h then Threw TypeError []
      else if \<not> canvas_el h then Threw TypeError []
      else Running (viewer_started (fst (client_pixels h)) (snd (client_pixels h))))"

definition viewer_resizeCanvas :: "nat \<Rightarrow> nat \<Rightarrow> viewer_state \<Rightarrow> viewer_state" where
  "viewer_resizeCanvas w ht s =
     vemit (Configure w ht) (s\<lparr>vcanvas_width := w, vcanvas_height := ht\<rparr>)"

text \<open>
  \<open>frame\<close> of the viewer script (lines 245 to 304), with the check of lines 268 to
  275: a depth texture whose size is not the canvas's is destroyed and created anew.
\<close>

definition viewer_frame :: "real \<Rightarrow> viewer_state \<Rightarrow> viewer_state" where
  "viewer_frame time s =
     (let s1 = s\<lparr>then_time := time\<rparr>;
          s2 = vemit (WriteBuffer UniformBuffer) s1;
          s3 = (if fst (vdepthTexture s2) \<noteq> vcanvas_width s2
                   \<or> snd (vdepthTexture s2) \<noteq> vcanvas_height s2
                then vemit (CreateTexture (vcanvas_width s2) (vcanvas_height s2))
                       (vemit DestroyTexture
                          (s2\<lparr>vdepthTexture := (vcanvas_width s2, vcanvas_height s2)\<rparr>))
                else s2);
          s4 = vemit (BeginRenderPass (vcanvas_width s3, vcanvas_height s3) (vdepthTexture s3)) s3;
          s5 = vemit (DrawIndexed 36 1 []) s4;
          s6 = vemit Submit s5
      in vemit RequestAnimationFrame s6)"

datatype viewer_event = VResize nat nat | VFrame real

fun viewer_step :: "viewer_state \<Rightarrow> viewer_event \<Rightarrow> viewer_state" where
  "viewer_step s (VResize w ht) = viewer_resizeCanvas w ht s"
| "viewer_step s (VFrame time) = viewer_frame time s"

definition viewer_run :: "viewer_state \<Rightarrow> viewer_event list \<Rightarrow> viewer_state" where
  "viewer_run s evs = foldl viewer_step s evs"

text \<open>The render passes of a trace: canvas size and depth texture size of each.\<close>

fun passes :: "effect list \<Rightarrow> ((nat \<times> nat) \<times> (nat \<times> nat)) list" where
  "passes [] = []"
| "passes (BeginRenderPass c d # es) = (c, d) # passes es"
| "passes (e # es) = passes es"

text \<open>
  The draws of a trace: index count, instance count and the instance data read, of each.
\<close>

fun draws :: "effect list \<Rightarrow> (nat \<times> nat \<times> jsnum list) list" where
  "draws [] = []"
| "draws (DrawIndexed n k d # es) = (n, k, d) # draws es"
| "draws (e # es) = draws es"

section \<open>Matrix helpers\<close>

text \<open>
  A matrix is the list of its 16 numbers, as the scripts' \<open>Float32Array(16)\<close>.
  \<open>perspective\<close> is the same text in both scripts (lines 178 to 199 of
  visualization.js, lines 145 to 166 of the viewer script). Where \<open>tan (fov / 2)\<close> is
  0 the script's \<open>f\<close> is infinite and the model's is 0; \<open>f\<close> only enters elements 0
  and 5, which scale \<open>x\<close> and \<open>y\<close>.
\<close>

definition perspective :: "real \<Rightarrow> real \<Rightarrow> real \<Rightarrow> real \<Rightarrow> real list" where
  "perspective fov aspect near far =
     (let f = 1 / tan (fov / 2);
          nf = 1 / (near - far)
      in [f / aspect, 0, 0, 0,
          0, f, 0, 0,
          0, 0, (far + near) * nf, - 1,
          0, 0, 2 * far * near * nf, 0])"

text \<open>
  The vertex shader multiplies the matrix, whose columns are consecutive in the array,
  with the position extended by \<open>w = 1\<close>; the depth a fragment gets is \<open>z / w\<close> of the
  product.
\<close>

definition clip_z :: "real list \<Rightarrow> real \<times> real \<times> real \<Rightarrow> real" where
  "clip_z m p = (case p of (x, y, z) \<Rightarrow> m ! 2 * x + m ! 6 * y + m ! 10 * z + m ! 14 * 1)"

definition clip_w :: "real list \<Rightarrow> real \<times> real \<times> real \<Rightarrow> real" where
  "clip_w m p = (case p of (x, y, z) \<Rightarrow> m ! 3 * x + m ! 7 * y + m ! 11 * z + m ! 15 * 1)"

definition depth :: "real list \<Rightarrow> real \<times> real \<times> real \<Rightarrow> real" where
  "depth m p = clip_z m p / clip_w m p"

text \<open>\<open>multiply\<close> of visualization.js (lines 237 to 264).\<close>

definition multiply :: "real list \<Rightarrow> real list \<Rightarrow> real list" where
  "multiply a b =
     (let a00 = a ! 0; a01 = a ! 1; a02 = a ! 2; a03 = a ! 3;
          a10 = a ! 4; a11 = a ! 5; a12 = a ! 6; a13 = a ! 7;
          a20 = a ! 8; a21 = a ! 9; a22 = a ! 10; a23 = a ! 11;
          a30 = a ! 12; a31 = a ! 13; a32 = a ! 14; a33 = a ! 15;
          b00 = b ! 0; b01 = b ! 1; b02 = b ! 2; b03 = b ! 3;
          b10 = b ! 4; b11 = b ! 5; b12 = b ! 6; b13 = b ! 7;
          b20 = b ! 8; b21 = b ! 9; b22 = b ! 10; b23 = b ! 11;
          b30 = b ! 12; b31 = b ! 13; b32 = b ! 14; b33 = b ! 15
      in [a00 * b00 + a01 * b10 + a02 * b20 + a03 * b30,
          a00 * b01 + a01 * b11 + a02 * b21 + a03 * b31,
          a00 * b02 + a01 * b12 + a02 * b22 + a03 * b32,
          a00 * b03 + a01 * b13 + a02 * b23 + a03 * b33,
          a10 * b00 + a11 * b10 + a12 * b20 + a13 * b30,
          a10 * b01 + a11 * b11 + a12 * b21 + a13 * b31,
          a10 * b02 + a11 * b12 + a12 * b22 + a13 * b32,
          a10 * b03 + a11 * b13 + a12 * b23 + a13 * b33,
          a20 * b00 + a21 * b10 + a22 * b20 + a23 * b30,
          a20 * b01 + a21 * b11 + a22 * b21 + a23 * b31,
          a20 * b02 + a21 * b12 + a22 * b22 + a23 * b32,
          a20 * b03 + a21 * b13 + a22 * b23 + a23 * b33,
          a30 * b00 + a31 * b10 + a32 * b20 + a33 * b30,
          a30 * b01 + a31 * b11 + a32 * b21 + a33 * b31,
          a30 * b02 + a31 * b12 + a32 * b22 + a33 * b32,
          a30 * b03 + a31 * b13 + a32 * b23 + a33 * b33])"

text \<open>\<open>multiply\<close> of the viewer script (lines 206 to 219): one pass of the loop, and the loop.\<close>

definition viewer_multiply_pass :: "real list \<Rightarrow> real list \<Rightarrow> nat \<Rightarrow> real list \<Rightarrow> real list" where
  "viewer_multiply_pass a b i out =
     (let ai0 = a ! i;
          ai1 = a ! (i + 4);
          ai2 = a ! (i + 8);
          ai3 = a ! (i + 12)
      in out[i := ai0 * b ! 0 + ai1 * b ! 1 + ai2 * b ! 2 + ai3 * b ! 3,
             i + 4 := ai0 * b ! 4 + ai1 * b ! 5 + ai2 * b ! 6 + ai3 * b ! 7,
             i + 8 := ai0 * b ! 8 + ai1 * b ! 9 + ai2 * b ! 10 + ai3 * b ! 11,
             i + 12 := ai0 * b ! 12 + ai1 * b ! 13 + ai2 * b ! 14 + ai3 * b ! 15])"

definition viewer_multiply :: "real list \<Rightarrow> real list \<Rightarrow> real list" where
  "viewer_multiply a b = fold (viewer_multiply_pass a b) [0..<4] (replicate 16 0)"

section \<open>Instance data: creation and update\<close>

subsection \<open>The creation loop\<close>

lemma length_init_record: "length (init_record i d) = length d"
  by (simp add: init_record_def Let_def)

lemma length_fold_init_record: "length (fold init_record is d) = length d"
  by (induction "is" arbitrary: d) (simp_all add: length_init_record)

lemma slot_eq: "k < 6 \<Longrightarrow> k' < 6 \<Longrightarrow> (i * 6 + k = n * 6 + k') = (i = n \<and> k = k')"
  for i k n k' :: nat
  by presburger

lemma init_record_other:
  assumes "i \<noteq> n" "k < 6"
  shows "init_record n e ! (i * 6 + k) = e ! (i * 6 + k)"
proof -
  have "i * 6 + k \<noteq> n * 6 + k'" if "k' < 6" for k'
    using slot_eq [OF assms(2) that, of i n] assms(1) by simp
  from this [of 0] this [of 1] this [of 2] this [of 3] this [of 4] this [of 5]
  show ?thesis by (simp add: init_record_def Let_def)
qed

lemma init_record_same:
  assumes "n * 6 + k < length e" "k < 6"
  shows "init_record n e ! (n * 6 + k) = created n ! k"
proof -
  from assms(2) consider "k = 0" | "k = 1" | "k = 2" | "k = 3" | "k = 4" | "k = 5"
    by linarith
  then show ?thesis
    using assms(1) by cases (simp_all add: init_record_def Let_def created_def)
qed

lemma nth_fold_init_record:
  assumes "i * 6 + k < length d" "k < 6"
  shows "fold init_record [0..<n] d ! (i * 6 + k)
       = (if i < n then created i ! k else d ! (i * 6 + k))"
proof (induction n)
  case 0
  then show ?case by simp
next
  case (Suc n)
  have "fold init_record [0..<Suc n] d = init_record n (fold init_record [0..<n] d)"
    by simp
  then show ?case
    using Suc assms init_record_other [of i n k "fold init_record [0..<n] d"]
      init_record_same [of n k "fold init_record [0..<n] d"]
    by (cases "i = n") (simp_all add: length_fold_init_record del: upt_Suc)
qed

lemma initial_instanceData_length: "length initial_instanceData = barCount * 6"
  by (simp add: initial_instanceData_def length_fold_init_record)

lemma initial_instanceData_nth:
  assumes "i < barCount" "k < 6"
  shows "initial_instanceData ! (i * 6 + k) = created i ! k"
proof -
  have "i * 6 + k < length (replicate (barCount * 6) (Number 0))"
    using assms by simp
  from nth_fold_init_record [OF this assms(2), of barCount] assms(1) show ?thesis
    by (simp add: initial_instanceData_def)
qed

subsection \<open>The update loop\<close>

lemma length_scale_bar: "length (scale_bar values i d) = length d"
  by (simp add: scale_bar_def Let_def)

lemma length_fold_scale_bar: "length (fold (scale_bar values) is d) = length d"
  by (induction "is" arbitrary: d) (simp_all add: length_scale_bar)

lemma scale_bar_nth:
  assumes "i * 6 + k < length e" "k < 6"
  shows "scale_bar values n e ! (i * 6 + k)
       = (if i = n \<and> k = 4 then new_scale values n else e ! (i * 6 + k))"
proof -
  have "(n * 6 + 4 = i * 6 + k) = (i = n \<and> k = 4)"
    using slot_eq [of k 4 i n] assms(2) by auto
  then show ?thesis
    using assms(1)
    by (simp add: scale_bar_def new_scale_def values_at_def Let_def nth_list_update)
qed

lemma nth_fold_scale_bar:
  assumes "i * 6 + k < length d" "k < 6"
  shows "fold (scale_bar values) [0..<n] d ! (i * 6 + k)
       = (if i < n \<and> k = 4 then new_scale values i else d ! (i * 6 + k))"
proof (induction n)
  case 0
  then show ?case by simp
next
  case (Suc n)
  have "fold (scale_bar values) [0..<Suc n] d ! (i * 6 + k)
      = scale_bar values n (fold (scale_bar values) [0..<n] d) ! (i * 6 + k)"
    by simp
  also have "\<dots> = (if i = n \<and> k = 4 then new_scale values n
                   else fold (scale_bar values) [0..<n] d ! (i * 6 + k))"
    using assms by (simp add: scale_bar_nth length_fold_scale_bar)
  finally show ?case using Suc
    by (auto simp: less_Suc_eq)
qed

lemma updateInstanceScales_Inr:
  "updateInstanceScales values s =
     Inr (s\<lparr>instanceData := fold (scale_bar values) [0..<barCount] (instanceData s),
            instanceBuffer := fold (scale_bar values) [0..<barCount] (instanceData s),
            trace := trace s @ [WriteBuffer InstanceBuffer]\<rparr>)"
  by (simp add: updateInstanceScales_def emit_def Let_def)

lemma updateInstanceScales_slot:
  assumes "updateInstanceScales values s = Inr s'"
    and "length (instanceData s) = barCount * 6" and "i < barCount" and "k < 6"
  shows "instanceData s' ! (i * 6 + k)
       = (if k = 4 then new_scale values i else instanceData s ! (i * 6 + k))"
proof -
  have "i * 6 + k < length (instanceData s)"
    using assms(2-4) by simp
  from nth_fold_scale_bar [OF this assms(4), of "values" barCount] assms(1,3)
  show ?thesis by (auto simp: updateInstanceScales_Inr)
qed

lemma updateInstanceScales_length:
  "updateInstanceScales values s = Inr s' \<Longrightarrow> length (instanceData s') = length (instanceData s)"
  by (auto simp: updateInstanceScales_Inr length_fold_scale_bar)

lemma updateInstanceScales_buffer:
  "updateInstanceScales values s = Inr s' \<Longrightarrow> instanceBuffer s' = instanceData s'"
  by (auto simp: updateInstanceScales_Inr)

lemma updates_slot:
  assumes "length (instanceData s) = barCount * 6" "i < barCount" "k < 6" "k \<noteq> 4"
  shows "\<exists>s'. updates vss s = Inr s' \<and> instanceData s' ! (i * 6 + k) = instanceData s ! (i * 6 + k)"
  using assms(1)
proof (induction vss arbitrary: s)
  case Nil
  then show ?case by simp
next
  case (Cons vals rest)
  obtain s1 where s1: "updateInstanceScales vals s = Inr s1"
    by (simp add: updateInstanceScales_Inr)
  have len: "length (instanceData s1) = barCount * 6"
    using updateInstanceScales_length [OF s1] Cons.prems by simp
  have same: "instanceData s1 ! (i * 6 + k) = instanceData s ! (i * 6 + k)"
    using updateInstanceScales_slot [OF s1 Cons.prems assms(2,3)] assms(4) by simp
  from Cons.IH [OF len] obtain s' where
    "updates rest s1 = Inr s'" "instanceData s' ! (i * 6 + k) = instanceData s1 ! (i * 6 + k)"
    by blast
  then show ?case using s1 same by simp
qed

text \<open>
  Claim C8. After any number of updates with sequences of \<open>barCount\<close> magnitudes,
  every bar still has the offset and the x and z scale that the creation loop gave it:
  \<open>offset.x = (i - (barCount - 1) / 2) * barSpacing\<close>, \<open>offset.y = offset.z = 0\<close>,
  \<open>scale.x = scale.z = 0.08\<close>. Only element \<open>i * 6 + 4\<close> of a record is written
  (lemma \<open>updateInstanceScales_slot\<close>).
\<close>

theorem bind_keeps_offsets_and_widths:
  assumes "\<forall>values \<in> set vss. length values = barCount" and "i < barCount"
  shows "\<exists>s'. updates vss (started w ht) = Inr s' \<and>
           instanceData s' ! (i * 6 + 0) = Number ((real i - (real barCount - 1) / 2) * barSpacing) \<and>
           instanceData s' ! (i * 6 + 1) = Number 0 \<and>
           instanceData s' ! (i * 6 + 2) = Number 0 \<and>
           instanceData s' ! (i * 6 + 3) = Number (8 / 100) \<and>
           instanceData s' ! (i * 6 + 5) = Number (8 / 100)"
proof -
  let ?s = "started w ht"
  have len: "length (instanceData ?s) = barCount * 6"
    by (simp add: started_def initial_instanceData_length)
  have init: "instanceData ?s ! (i * 6 + k) = created i ! k" if "k < 6" for k
    using initial_instanceData_nth [OF assms(2) that] by (simp add: started_def)
  obtain s' where s': "updates vss ?s = Inr s'"
    using updates_slot [OF len assms(2), of 0 vss] by auto
  have keep: "instanceData s' ! (i * 6 + k) = created i ! k" if "k < 6" "k \<noteq> 4" for k
    using updates_slot [OF len assms(2) that, of vss] s' init [OF that(1)] by simp
  from keep [of 0] keep [of 1] keep [of 2] keep [of 3] keep [of 5] s'
  show ?thesis by (simp add: created_def)
qed

theorem bind_keeps_offsets_and_widths_witness:
  "length [1, 2, 3, 4, 5, 6, 7, 8, 9, 10 :: real] = barCount \<and>
   (3::nat) < barCount \<and>
   (\<exists>s'. updates [[1, 2, 3, 4, 5, 6, 7, 8, 9, 10]] (started 300 150) = Inr s' \<and>
      instanceData s' ! (3 * 6 + 0) = Number ((real 3 - (real barCount - 1) / 2) * barSpacing) \<and>
      instanceData s' ! (3 * 6 + 1) = Number 0 \<and>
      instanceData s' ! (3 * 6 + 2) = Number 0 \<and>
      instanceData s' ! (3 * 6 + 3) = Number (8 / 100) \<and>
      instanceData s' ! (3 * 6 + 5) = Number (8 / 100))"
proof -
  have a: "\<forall>vals \<in> set [[1, 2, 3, 4, 5, 6, 7, 8, 9, 10 :: real]]. length vals = barCount"
    by (simp add: barCount_def)
  have b: "(3::nat) < barCount"
    by (simp add: barCount_def)
  from bind_keeps_offsets_and_widths [OF a b, of 300 150] a b show ?thesis
    by simp
qed

subsection \<open>The divisor\<close>

lemma maxValue_ge_1: "1 \<le> maxValue vs"
  by (induction vs) (simp_all add: maxValue_def)

lemma maxValue_ge: "v \<in> set vs \<Longrightarrow> v \<le> maxValue vs"
  by (induction vs) (auto simp: maxValue_def)

lemma maxValue_Max: "maxValue vs = Max (insert 1 (set vs))"
proof (induction vs)
  case Nil
  then show ?case by (simp add: maxValue_def)
next
  case (Cons v vs)
  have "maxValue (v # vs) = max v (maxValue vs)"
    by (simp add: maxValue_def)
  also have "\<dots> = max v (Max (insert 1 (set vs)))"
    using Cons by simp
  also have "\<dots> = Max (insert v (insert 1 (set vs)))"
    by simp
  finally show ?case by (simp add: insert_commute)
qed

lemma maxValue_nonempty: "vs \<noteq> [] \<Longrightarrow> maxValue vs = max (Max (set vs)) 1"
  by (simp add: maxValue_Max max.commute)

lemma maxValue_scaled:
  assumes "vs \<noteq> []" "1 \<le> Max (set vs)" "1 \<le> c"
  shows "maxValue (map ((*) c) vs) = c * maxValue vs"
proof -
  have mono: "mono ((*) c)"
    using assms(3) by (simp add: mono_def mult_left_mono)
  have "Max (set (map ((*) c) vs)) = c * Max (set vs)"
    using mono_Max_commute [OF mono, of "set vs"] assms(1) by simp
  moreover have "1 \<le> c * Max (set vs)"
    using assms(2,3) by (metis mult_mono' mult_1 zero_le_one)
  ultimately show ?thesis
    using assms(1,2) by (simp add: maxValue_nonempty)
qed


subsection \<open>Bar heights\<close>

lemma height_bounds:
  fixes r :: real
  assumes "0 \<le> r" "r \<le> 1"
  shows "5 / 100 \<le> 5 / 100 + r * (9 / 10)" and "5 / 100 + r * (9 / 10) \<le> 95 / 100"
  using assms by simp_all

text \<open>
  Claim C6, as amended. For a sequence of \<open>barCount\<close> non-negative magnitudes, the
  update sets \<open>scale.y\<close> of every bar to \<open>0.05 + (magnitude / max(maximum, 1)) * 0.9\<close>,
  a value between 0.05 and 0.95; the bar whose magnitude is the maximum gets 0.95 when
  that maximum is at least 1.
\<close>

theorem bar_height_formula:
  assumes len: "length values = barCount"
    and nonneg: "\<forall>v \<in> set values. 0 \<le> v"
    and data: "length (instanceData s) = barCount * 6"
    and i: "i < barCount"
  shows "\<exists>s'. updateInstanceScales values s = Inr s' \<and>
           scale_y (instanceData s') i
             = Number (5 / 100 + values ! i / max (Max (set values)) 1 * (9 / 10)) \<and>
           5 / 100 \<le> 5 / 100 + values ! i / max (Max (set values)) 1 * (9 / 10) \<and>
           5 / 100 + values ! i / max (Max (set values)) 1 * (9 / 10) \<le> 95 / 100 \<and>
           (1 \<le> Max (set values) \<and> values ! i = Max (set values)
              \<longrightarrow> scale_y (instanceData s') i = Number (95 / 100))"
proof -
  let ?m = "max (Max (set values)) 1"
  have ne: "values \<noteq> []"
    using len by (auto simp: barCount_def)
  have m: "maxValue values = ?m"
    using ne by (rule maxValue_nonempty)
  have il: "i < length values"
    using i len by simp
  then have mem: "values ! i \<in> set values"
    by simp
  have v0: "0 \<le> values ! i"
    using nonneg mem by blast
  have vm: "values ! i \<le> ?m"
    using maxValue_ge [OF mem] m by simp
  have m1: "1 \<le> ?m"
    by simp
  have mpos: "0 < ?m"
    using m1 by linarith
  have r0: "0 \<le> values ! i / ?m"
    using v0 mpos by (intro divide_nonneg_pos)
  have r1: "values ! i / ?m \<le> 1"
    using vm mpos by (subst pos_divide_le_eq) simp_all
  obtain s' where s': "updateInstanceScales values s = Inr s'"
    by (simp add: updateInstanceScales_Inr)
  have y: "scale_y (instanceData s') i = Number (5 / 100 + values ! i / ?m * (9 / 10))"
    using updateInstanceScales_slot [OF s' data i, of 4] il m
    by (simp add: scale_y_def new_scale_def)
  have top: "scale_y (instanceData s') i = Number (95 / 100)"
    if "1 \<le> Max (set values)" "values ! i = Max (set values)"
  proof -
    have "values ! i / ?m = 1"
      using that by (simp add: max_def)
    then show ?thesis using y by simp
  qed
  have lo: "5 / 100 \<le> 5 / 100 + values ! i / ?m * (9 / 10)"
    using r0 r1 by (rule height_bounds)
  have hi: "5 / 100 + values ! i / ?m * (9 / 10) \<le> 95 / 100"
    using r0 r1 by (rule height_bounds)
  from s' y lo hi top show ?thesis
    by blast
qed

text \<open>The magnitudes 1 to 10: the last bar holds the maximum and gets 0.95.\<close>

theorem bar_height_formula_witness:
  "length [1, 2, 3, 4, 5, 6, 7, 8, 9, 10 :: real] = barCount \<and>
   list_all (\<lambda>v. 0 \<le> v) [1, 2, 3, 4, 5, 6, 7, 8, 9, 10 :: real] \<and>
   length (instanceData (started 300 150)) = barCount * 6 \<and>
   (9::nat) < barCount \<and>
   (\<exists>s'. updateInstanceScales [1, 2, 3, 4, 5, 6, 7, 8, 9, 10] (started 300 150) = Inr s' \<and>
      scale_y (instanceData s') 9 = Number (95 / 100))"
proof -
  let ?vs = "[1, 2, 3, 4, 5, 6, 7, 8, 9, 10 :: real]"
  have a: "length ?vs = barCount"
    by (simp add: barCount_def)
  have b: "\<forall>v \<in> set ?vs. 0 \<le> v"
    by simp
  have c: "length (instanceData (started 300 150)) = barCount * 6"
    by (simp add: started_def initial_instanceData_length)
  have d: "(9::nat) < barCount"
    by (simp add: barCount_def)
  have e: "1 \<le> Max (set ?vs) \<and> ?vs ! 9 = Max (set ?vs)"
    by simp
  from bar_height_formula [OF a b c d] e a c d show ?thesis
    by auto
qed

text \<open>
  Claim C6 as stated fails when the maximum is below 1: the divisor is then 1, not
  the maximum. With ten zeros every bar holds the maximum and gets 0.05.
\<close>

theorem max_bar_not_always_tallest:
  "length [0, 0, 0, 0, 0, 0, 0, 0, 0, 0 :: real] = barCount \<and>
   list_all (\<lambda>v. 0 \<le> v) [0, 0, 0, 0, 0, 0, 0, 0, 0, 0 :: real] \<and>
   [0, 0, 0, 0, 0, 0, 0, 0, 0, 0 :: real] ! 0 = Max (set [0, 0, 0, 0, 0, 0, 0, 0, 0, 0]) \<and>
   map_sum id (\<lambda>s'. scale_y (instanceData s') 0)
     (updateInstanceScales [0, 0, 0, 0, 0, 0, 0, 0, 0, 0] (started 300 150))
     = Inr (Number (5 / 100)) \<and>
   Number (5 / 100) \<noteq> Number (95 / 100)"
proof -
  let ?vs = "[0, 0, 0, 0, 0, 0, 0, 0, 0, 0 :: real]"
  let ?s = "started 300 150"
  obtain s' where s': "updateInstanceScales ?vs ?s = Inr s'"
    by (simp add: updateInstanceScales_Inr)
  have c: "length (instanceData ?s) = barCount * 6"
    by (simp add: started_def initial_instanceData_length)
  have d: "(0::nat) < barCount"
    by (simp add: barCount_def)
  have "scale_y (instanceData s') 0 = Number (5 / 100)"
    using updateInstanceScales_slot [OF s' c d, of 4]
    by (simp add: scale_y_def new_scale_def maxValue_def)
  then show ?thesis
    using s' by (simp add: barCount_def)
qed

subsection \<open>Rescaling the magnitudes\<close>

lemma xmaxValue_Fin: "xmaxValue (map Fin vs) = Fin (maxValue vs)"
  by (induction vs) (simp_all add: xmaxValue_def maxValue_def)

text \<open>
  Claim C9, as amended. For a sequence of \<open>barCount\<close> magnitudes whose maximum is at
  least 1 and a factor \<open>c \<ge> 1\<close> such that every product \<open>c * magnitude\<close> is exact in
  double arithmetic (it is a double and does not overflow, as for a power of two within
  range), the update of the products stores the same \<open>scale.y\<close> for every bar as the
  update of the magnitudes, whatever the rounding of the other operations.
\<close>

theorem bind_scale_invariant:
  assumes len: "length values = barCount"
    and big: "1 \<le> Max (set values)"
    and c: "1 \<le> c"
    and exact: "\<forall>v \<in> set values. dbl rd (c * v) = Fin (c * v)"
    and i: "i < barCount"
  shows "rounded_scale_y rd fr (scaled rd c values) i = rounded_scale_y rd fr (map Fin values) i"
proof -
  have ne: "values \<noteq> []"
    using len by (auto simp: barCount_def)
  have sc: "scaled rd c values = map Fin (map ((*) c) values)"
    using exact by (simp add: scaled_def)
  have m: "maxValue (map ((*) c) values) = c * maxValue values"
    using maxValue_scaled [OF ne big c] .
  have il: "i < length values"
    using i len by simp
  have c0: "c \<noteq> 0"
    using c by simp
  have m0: "maxValue values \<noteq> 0"
    using maxValue_ge_1 [of "values"] by simp
  have "xdiv rd (xvalues_at (scaled rd c values) i) (xmaxValue (scaled rd c values))
      = dbl rd (c * values ! i / (c * maxValue values))"
    unfolding sc xmaxValue_Fin m using il c0 m0 by (simp add: xvalues_at_def)
  also have "\<dots> = dbl rd (values ! i / maxValue values)"
    using c0 by simp
  also have "\<dots> = xdiv rd (xvalues_at (map Fin values) i) (xmaxValue (map Fin values))"
    unfolding xmaxValue_Fin using il m0 by (simp add: xvalues_at_def)
  finally show ?thesis
    by (simp add: rounded_scale_y_def)
qed

text \<open>
  The magnitudes 1 to 10 and the factor 2, with a rounding that cuts a result off after
  52 binary places: every product is a whole number and is not rounded.
\<close>

theorem bind_scale_invariant_witness:
  "length [1, 2, 3, 4, 5, 6, 7, 8, 9, 10 :: real] = barCount \<and>
   1 \<le> Max (set [1, 2, 3, 4, 5, 6, 7, 8, 9, 10 :: real]) \<and>
   (1::real) \<le> 2 \<and>
   list_all (\<lambda>v. dbl (\<lambda>x. real_of_int \<lfloor>x * 2 ^ 52\<rfloor> / 2 ^ 52) (2 * v) = Fin (2 * v))
     [1, 2, 3, 4, 5, 6, 7, 8, 9, 10] \<and>
   rounded_scale_y (\<lambda>x. real_of_int \<lfloor>x * 2 ^ 52\<rfloor> / 2 ^ 52) (\<lambda>x. x)
       (scaled (\<lambda>x. real_of_int \<lfloor>x * 2 ^ 52\<rfloor> / 2 ^ 52) 2 [1, 2, 3, 4, 5, 6, 7, 8, 9, 10]) 4
     = rounded_scale_y (\<lambda>x. real_of_int \<lfloor>x * 2 ^ 52\<rfloor> / 2 ^ 52) (\<lambda>x. x)
         (map Fin [1, 2, 3, 4, 5, 6, 7, 8, 9, 10]) 4"
proof -
  let ?vs = "[1, 2, 3, 4, 5, 6, 7, 8, 9, 10 :: real]"
  let ?rd = "\<lambda>x::real. real_of_int \<lfloor>x * 2 ^ 52\<rfloor> / 2 ^ 52"
  have a: "length ?vs = barCount"
    by (simp add: barCount_def)
  have b: "1 \<le> Max (set ?vs)"
    by simp
  have c: "(1::real) \<le> 2"
    by simp
  have whole: "?rd (real_of_int n) = real_of_int n" for n :: int
  proof -
    have "real_of_int n * 2 ^ 52 = real_of_int (n * 2 ^ 52)"
      by simp
    then have "\<lfloor>real_of_int n * 2 ^ 52\<rfloor> = n * 2 ^ 52"
      by (simp only: floor_of_int)
    then show ?thesis
      by simp
  qed
  have small: "dbl ?rd (real_of_int n) = Fin (real_of_int n)" if "\<bar>n\<bar> \<le> 32" for n :: int
  proof -
    have "(32::real) = 2 ^ 5"
      by simp
    also have "\<dots> < 2 ^ 1024"
      by (rule power_strict_increasing) simp_all
    finally have "\<bar>real_of_int n\<bar> < 2 ^ 1024"
      using that by linarith
    then show ?thesis
      unfolding dbl_def whole by simp
  qed
  from small [of 2] small [of 4] small [of 6] small [of 8] small [of 10] small [of 12]
    small [of 14] small [of 16] small [of 18] small [of 20]
  have d: "\<forall>v \<in> set ?vs. dbl ?rd (2 * v) = Fin (2 * v)"
    by simp
  have e: "(4::nat) < barCount"
    by (simp add: barCount_def)
  from bind_scale_invariant [OF a b c d e, of "\<lambda>x. x"] a b c d show ?thesis
    by (simp add: list_all_iff)
qed

text \<open>
  When every product overflows, every height is \<open>NaN\<close>, whatever the rounding: the
  divisor is infinite too.
\<close>

lemma overflowing_products_give_NaN:
  assumes "\<forall>v \<in> set values. dbl rd (c * v) = PInf" and "i < length values"
  shows "rounded_scale_y rd fr (scaled rd c values) i = XNaN"
proof -
  have sc: "scaled rd c values = map (\<lambda>v. PInf) values"
    using assms(1) by (simp add: scaled_def)
  have "foldr xmax (map (\<lambda>v. PInf) vs) (Fin 1) = (if vs = [] then Fin 1 else PInf)"
    for vs :: "real list"
    by (induction vs) simp_all
  then have mx: "xmaxValue (map (\<lambda>v. PInf) values) = PInf"
    using assms(2) by (auto simp: xmaxValue_def)
  show ?thesis
    unfolding sc using assms(2) by (simp add: rounded_scale_y_def mx xvalues_at_def)
qed

text \<open>
  Claim C9 as stated fails when the products overflow: ten magnitudes 2 and the factor
  \<open>2 ^ 1023\<close>. Every product is \<open>2 ^ 1024\<close>, which is infinite as a double; the
  divisor is infinite as well, and infinity divided by infinity is \<open>NaN\<close>. The
  magnitudes themselves give the finite height 0.95. Shown in an arithmetic that never
  rounds a finite result; the \<open>NaN\<close> is the same under every rounding that keeps
  \<open>2 ^ 1024\<close> (lemma \<open>overflowing_products_give_NaN\<close>).
\<close>

theorem overflow_breaks_scale_invariance:
  "length [2, 2, 2, 2, 2, 2, 2, 2, 2, 2 :: real] = barCount \<and>
   1 \<le> Max (set [2, 2, 2, 2, 2, 2, 2, 2, 2, 2 :: real]) \<and>
   (1::real) \<le> 2 ^ 1023 \<and>
   rounded_scale_y (\<lambda>x. x) (\<lambda>x. x)
     (scaled (\<lambda>x. x) (2 ^ 1023) [2, 2, 2, 2, 2, 2, 2, 2, 2, 2]) 0 = XNaN \<and>
   rounded_scale_y (\<lambda>x. x) (\<lambda>x. x) (map Fin [2, 2, 2, 2, 2, 2, 2, 2, 2, 2]) 0
     = Fin (95 / 100)"
proof -
  let ?vs = "[2, 2, 2, 2, 2, 2, 2, 2, 2, 2 :: real]"
  have inf: "dbl (\<lambda>x. x) x = PInf" if "2 ^ 1024 \<le> x" for x :: real
  proof -
    have "(0::real) < 2 ^ 1024"
      by simp
    then have "0 < x"
      using that by linarith
    then show ?thesis
      using that by (simp add: dbl_def)
  qed
  have sc: "scaled (\<lambda>x. x) (2 ^ 1023) ?vs = map (\<lambda>v. PInf) ?vs"
    by (simp add: scaled_def inf)
  have left: "rounded_scale_y (\<lambda>x. x) (\<lambda>x. x) (scaled (\<lambda>x. x) (2 ^ 1023) ?vs) 0 = XNaN"
    unfolding sc by (simp add: rounded_scale_y_def xmaxValue_def xvalues_at_def)
  have one: "(1::real) < 2 ^ 1024" and one32: "(1::real) < 2 ^ 128"
    by (rule one_less_power; simp)+
  have fin: "dbl (\<lambda>x. x) x = Fin x" if "\<bar>x\<bar> \<le> 1" for x :: real
    using that one by (simp add: dbl_def)
  have right: "rounded_scale_y (\<lambda>x. x) (\<lambda>x. x) (map Fin ?vs) 0 = Fin (95 / 100)"
    using one32 by (simp add: rounded_scale_y_def xmaxValue_def xvalues_at_def fin)
  have big: "(1::real) \<le> 2 ^ 1023"
    by (rule one_le_power) simp
  from left right big show ?thesis
    by (simp add: barCount_def)
qed

subsection \<open>Sequences of another length\<close>

text \<open>
  Claim C1, as amended. A sequence whose length is not \<open>barCount\<close> never meets a
  length check. If it is short enough to be spread into the arguments of \<open>Math.max\<close>,
  the update ends normally, has written the instance buffer once, has set \<open>scale.y\<close>
  of bar \<open>i\<close> to \<open>0.05 + (values[i] / maxValue) * 0.9\<close> where the sequence has an
  element \<open>i\<close> and to \<open>NaN\<close> where it has none, and has kept every other component.
  If it is longer, the update throws a \<open>RangeError\<close> before it has written anything.
\<close>

theorem bind_other_length_still_writes:
  assumes "length values \<noteq> barCount"
    and data: "length (instanceData s) = barCount * 6"
    and i: "i < barCount" and k: "k < 6"
  shows "if length values < max_args
         then \<exists>s'. updateInstanceScales_engine max_args values s = Inr s' \<and>
                trace s' = trace s @ [WriteBuffer InstanceBuffer] \<and>
                instanceBuffer s' = instanceData s' \<and>
                instanceData s' ! (i * 6 + k)
                  = (if k = 4 then
                       (if i < length values
                        then Number (5 / 100 + values ! i / maxValue values * (9 / 10))
                        else NaN)
                     else instanceData s ! (i * 6 + k))
         else updateInstanceScales_engine max_args values s = Inl RangeError"
proof (cases "length values < max_args")
  case True
  then have eng: "updateInstanceScales_engine max_args values s = updateInstanceScales values s"
    by (simp add: updateInstanceScales_engine_def)
  obtain s' where s': "updateInstanceScales values s = Inr s'"
    by (simp add: updateInstanceScales_Inr)
  have "trace s' = trace s @ [WriteBuffer InstanceBuffer]"
    using s' by (auto simp: updateInstanceScales_Inr)
  moreover have "instanceBuffer s' = instanceData s'"
    using s' by (rule updateInstanceScales_buffer)
  moreover note updateInstanceScales_slot [OF s' data i k]
  ultimately show ?thesis
    using s' eng True by (simp add: new_scale_def)
next
  case False
  then show ?thesis
    by (simp add: updateInstanceScales_engine_def)
qed

text \<open>
  Three magnitudes, with an engine that takes 65536 arguments: bar 1 gets 0.5, bar 3
  gets \<open>NaN\<close>, its \<open>scale.x\<close> stays. With an engine that takes only two, the same
  three magnitudes end in a \<open>RangeError\<close>.
\<close>

theorem bind_other_length_still_writes_witness:
  "length [4, 2, 1 :: real] \<noteq> barCount \<and>
   length (instanceData (started 300 150)) = barCount * 6 \<and>
   (\<exists>s'. updateInstanceScales_engine 65536 [4, 2, 1] (started 300 150) = Inr s' \<and>
      trace s' = trace (started 300 150) @ [WriteBuffer InstanceBuffer] \<and>
      instanceData s' ! (1 * 6 + 4) = Number (5 / 10) \<and>
      instanceData s' ! (3 * 6 + 4) = NaN \<and>
      instanceData s' ! (3 * 6 + 3) = Number (8 / 100)) \<and>
   updateInstanceScales_engine 2 [4, 2, 1] (started 300 150) = Inl RangeError"
proof -
  let ?s = "started 300 150"
  have a: "length [4, 2, 1 :: real] \<noteq> barCount"
    by (simp add: barCount_def)
  have b: "length (instanceData ?s) = barCount * 6"
    by (simp add: started_def initial_instanceData_length)
  have i1: "(1::nat) < barCount" and i3: "(3::nat) < barCount"
    by (simp_all add: barCount_def)
  have old: "instanceData ?s ! (3 * 6 + 3) = Number (8 / 100)"
    using initial_instanceData_nth [OF i3, of 3] by (simp add: started_def created_def)
  obtain s' where s': "updateInstanceScales_engine 65536 [4, 2, 1] ?s = Inr s'"
    by (simp add: updateInstanceScales_engine_def updateInstanceScales_Inr)
  from bind_other_length_still_writes [OF a b i1, of 4 65536]
    bind_other_length_still_writes [OF a b i3, of 4 65536]
    bind_other_length_still_writes [OF a b i3, of 3 65536]
    bind_other_length_still_writes [OF a b i3, of 3 2] s' old a b
  show ?thesis
    by (simp add: maxValue_def)
qed

text \<open>
  Claim C1 as stated fails: with eleven magnitudes the update ends normally, bar 0
  goes from 0.5 to 0.95, and the instance buffer is written.
\<close>

theorem bind_without_length_check:
  "length [1, 1, 1, 1, 1, 1, 1, 1, 1, 1, 1 :: real] \<noteq> barCount \<and>
   map_sum id (\<lambda>s'. (scale_y (instanceData s') 0, trace s'))
     (updateInstanceScales [1, 1, 1, 1, 1, 1, 1, 1, 1, 1, 1] (started 300 150))
     = Inr (Number (95 / 100), trace (started 300 150) @ [WriteBuffer InstanceBuffer]) \<and>
   scale_y (instanceData (started 300 150)) 0 = Number (5 / 10)"
proof -
  let ?vs = "[1, 1, 1, 1, 1, 1, 1, 1, 1, 1, 1 :: real]"
  let ?s = "started 300 150"
  obtain s' where s': "updateInstanceScales ?vs ?s = Inr s'"
    by (simp add: updateInstanceScales_Inr)
  have c: "length (instanceData ?s) = barCount * 6"
    by (simp add: started_def initial_instanceData_length)
  have d: "(0::nat) < barCount"
    by (simp add: barCount_def)
  have new: "scale_y (instanceData s') 0 = Number (95 / 100)"
    using updateInstanceScales_slot [OF s' c d, of 4]
    by (simp add: scale_y_def new_scale_def maxValue_def)
  have tr: "trace s' = trace ?s @ [WriteBuffer InstanceBuffer]"
    using s' by (auto simp: updateInstanceScales_Inr)
  have old: "scale_y (instanceData ?s) 0 = Number (5 / 10)"
    using initial_instanceData_nth [OF d, of 4] by (simp add: started_def created_def scale_y_def)
  from s' new tr old show ?thesis
    by (simp add: barCount_def)
qed

section \<open>The event loop, the matrices and the fetch\<close>

subsection \<open>Traces\<close>

lemma draws_append: "draws (xs @ ys) = draws xs @ draws ys"
  by (induction xs rule: draws.induct) simp_all

lemma passes_append: "passes (xs @ ys) = passes xs @ passes ys"
  by (induction xs rule: passes.induct) simp_all

lemma frame_draws:
  "draws (trace (frame s)) = draws (trace s) @ [(36, barCount, instanceBuffer s)]"
  by (simp add: frame_def emit_def Let_def draws_append)

lemma frame_trace:
  "trace (frame s) =
     trace s @
     [WriteBuffer UniformBuffer,
      BeginRenderPass (canvas_width s, canvas_height s) (depthTexture s),
      CreateBindGroup,
      DrawIndexed 36 barCount (instanceBuffer s),
      Submit,
      RequestAnimationFrame]"
  by (simp add: frame_def emit_def Let_def)

lemma frame_instanceBuffer: "instanceBuffer (frame s) = instanceBuffer s"
  by (simp add: frame_def emit_def Let_def)

lemma frame_passes:
  "passes (trace (frame s))
     = passes (trace s) @ [((canvas_width s, canvas_height s), depthTexture s)]"
  by (simp add: frame_def emit_def Let_def passes_append)

lemma resizeCanvas_draws: "draws (trace (resizeCanvas w ht s)) = draws (trace s)"
  by (simp add: resizeCanvas_def emit_def draws_append)

lemma resizeCanvas_instanceBuffer: "instanceBuffer (resizeCanvas w ht s) = instanceBuffer s"
  by (simp add: resizeCanvas_def emit_def)

lemma run_Cons: "run pf s (ev # evs) = run pf (step pf s ev) evs"
  by (simp add: run_def)

lemma run_without_fetch:
  assumes "\<forall>ev \<in> set evs. \<not> is_fetch ev"
  shows "instanceBuffer (run pf s evs) = instanceBuffer s \<and>
         draws (trace (run pf s evs))
           = draws (trace s)
               @ replicate (length (filter (\<lambda>ev. ev = Frame) evs)) (36, barCount, instanceBuffer s)"
  using assms
proof (induction evs arbitrary: s)
  case Nil
  then show ?case by (simp add: run_def)
next
  case (Cons ev evs)
  then have rest: "\<forall>e \<in> set evs. \<not> is_fetch e" and here: "\<not> is_fetch ev"
    by simp_all
  note IH = Cons.IH [OF rest]
  show ?case
  proof (cases ev)
    case (Resize w ht)
    then show ?thesis
      using IH [of "resizeCanvas w ht s"]
      by (simp add: run_Cons resizeCanvas_draws resizeCanvas_instanceBuffer)
  next
    case Frame
    then show ?thesis
      using IH [of "frame s"]
      by (simp add: run_Cons frame_draws frame_instanceBuffer replicate_app_Cons_same)
  next
    case (FetchCompleted outcome rnd)
    then show ?thesis using here by (simp add: is_fetch_def)
  qed
qed

subsection \<open>Frames before the first data\<close>

text \<open>
  Claim C10. After a start-up that runs through, every bar has \<open>scale.y = 0.5\<close>. As
  long as no run of \<open>fetchDataAndUpdate\<close> has completed, every animation frame has
  issued one draw of 36 indices and \<open>barCount\<close> instances that reads instance data in
  which every bar has \<open>scale.y = 0.5\<close>, and the next frame does so again: it writes
  the uniform, begins a pass, draws the 36 indices of all \<open>barCount\<close> instances from
  that data, submits, and requests the frame after it.
\<close>

theorem default_height_until_first_fetch:
  assumes "gpu h" and "adapter h" and "canvas_el h"
    and nofetch: "\<forall>ev \<in> set evs. \<not> is_fetch ev"
  shows "\<exists>s d. initVisualization h = Running s \<and>
           (\<forall>i < barCount. scale_y (instanceData s) i = Number (5 / 10)) \<and>
           (\<forall>i < barCount. scale_y d i = Number (5 / 10)) \<and>
           draws (trace (run pf s evs))
             = replicate (length (filter (\<lambda>ev. ev = Frame) evs)) (36, barCount, d) \<and>
           trace (frame (run pf s evs))
             = trace (run pf s evs) @
               [WriteBuffer UniformBuffer,
                BeginRenderPass
                  (canvas_width (run pf s evs), canvas_height (run pf s evs))
                  (depthTexture (run pf s evs)),
                CreateBindGroup,
                DrawIndexed 36 barCount d,
                Submit,
                RequestAnimationFrame]"
proof -
  let ?s = "started (fst (client_pixels h)) (snd (client_pixels h))"
  have init: "initVisualization h = Running ?s"
    using assms(1-3) by (simp add: initVisualization_def)
  have half: "scale_y initial_instanceData i = Number (5 / 10)" if "i < barCount" for i
    using initial_instanceData_nth [OF that, of 4] by (simp add: scale_y_def created_def)
  have d0: "draws (trace ?s) = []"
    by (simp add: started_def)
  have buf: "instanceBuffer ?s = initial_instanceData" "instanceData ?s = initial_instanceData"
    by (simp_all add: started_def)
  from run_without_fetch [OF nofetch, of pf ?s]
  have keep: "instanceBuffer (run pf ?s evs) = initial_instanceData"
    and dr: "draws (trace (run pf ?s evs))
      = replicate (length (filter (\<lambda>ev. ev = Frame) evs)) (36, barCount, initial_instanceData)"
    by (simp_all add: d0 buf)
  have next_frame: "trace (frame (run pf ?s evs))
      = trace (run pf ?s evs) @
        [WriteBuffer UniformBuffer,
         BeginRenderPass
           (canvas_width (run pf ?s evs), canvas_height (run pf ?s evs))
           (depthTexture (run pf ?s evs)),
         CreateBindGroup,
         DrawIndexed 36 barCount initial_instanceData,
         Submit,
         RequestAnimationFrame]"
    by (simp add: frame_trace keep)
  from init half dr next_frame buf show ?thesis
    by (intro exI [of _ ?s] exI [of _ initial_instanceData]) simp
qed

text \<open>
  Two frames before any fetch has completed: two draws of 36 indices and 10 instances,
  bar 7 at 0.5 in the data they read, and a third frame that draws the same.
\<close>

theorem default_height_until_first_fetch_witness:
  "(\<exists>s d. initVisualization
           \<lparr>gpu = True, adapter = True, message_el = True, canvas_el = True,
            client_pixels = (300, 150)\<rparr> = Running s \<and>
        scale_y (instanceData s) 7 = Number (5 / 10) \<and>
        scale_y d 7 = Number (5 / 10) \<and>
        draws (trace (run (\<lambda>t. NaN) s [Frame, Frame])) = [(36, 10, d), (36, 10, d)] \<and>
        draws (trace (frame (run (\<lambda>t. NaN) s [Frame, Frame])))
          = [(36, 10, d), (36, 10, d), (36, 10, d)])"
proof -
  let ?h = "\<lparr>gpu = True, adapter = True, message_el = True, canvas_el = True,
             client_pixels = (300, 150)\<rparr>"
  have a: "gpu ?h" and b: "adapter ?h" and c: "canvas_el ?h"
    by simp_all
  have d: "\<forall>ev \<in> set [Frame, Frame]. \<not> is_fetch ev"
    by (simp add: is_fetch_def)
  have e: "(7::nat) < barCount"
    by (simp add: barCount_def)
  from default_height_until_first_fetch [OF a b c d, of "\<lambda>t. NaN"]
  obtain s dd where
    r: "initVisualization ?h = Running s"
      "\<forall>i < barCount. scale_y (instanceData s) i = Number (5 / 10)"
      "\<forall>i < barCount. scale_y dd i = Number (5 / 10)"
      "draws (trace (run (\<lambda>t. NaN) s [Frame, Frame]))
         = replicate (length (filter (\<lambda>ev. ev = Frame) [Frame, Frame])) (36, barCount, dd)"
      "trace (frame (run (\<lambda>t. NaN) s [Frame, Frame]))
         = trace (run (\<lambda>t. NaN) s [Frame, Frame]) @
           [WriteBuffer UniformBuffer,
            BeginRenderPass
              (canvas_width (run (\<lambda>t. NaN) s [Frame, Frame]),
               canvas_height (run (\<lambda>t. NaN) s [Frame, Frame]))
              (depthTexture (run (\<lambda>t. NaN) s [Frame, Frame])),
            CreateBindGroup,
            DrawIndexed 36 barCount dd,
            Submit,
            RequestAnimationFrame]"
    by blast
  have two: "draws (trace (run (\<lambda>t. NaN) s [Frame, Frame])) = [(36, 10, dd), (36, 10, dd)]"
    using r(4) by (simp add: barCount_def)
  have three: "draws (trace (frame (run (\<lambda>t. NaN) s [Frame, Frame])))
      = [(36, 10, dd), (36, 10, dd), (36, 10, dd)]"
    by (simp add: r(5) draws_append two) (simp add: barCount_def)
  from r(1) r(2) r(3) e two three show ?thesis
    by blast
qed

subsection \<open>The depth texture after a resize\<close>

text \<open>
  Claim C5 fails for the bar chart: its \<open>frame\<close> never compares the depth texture
  with the canvas. Start-up with a canvas of 300 by 150, a resize to 400 by 200, one
  frame: the pass is recorded with the canvas at 400 by 200 and the depth texture still
  at 300 by 150.
\<close>

theorem bar_chart_depth_stale_after_resize:
  "initVisualization
     \<lparr>gpu = True, adapter = True, message_el = True, canvas_el = True,
      client_pixels = (300, 150)\<rparr> = Running (started 300 150) \<and>
   passes (trace (run pf (started 300 150) [Resize 400 200, Frame]))
     = [((400, 200), (300, 150))]"
  by (simp add: initVisualization_def run_def frame_passes resizeCanvas_def emit_def
      passes_append) (simp add: started_def)

text \<open>
  The viewer script's \<open>frame\<close> has the check: every pass it records has a depth texture
  of the canvas's size.
\<close>

lemma viewer_frame_passes:
  "passes (vtrace (viewer_frame time s))
     = passes (vtrace s) @ [((vcanvas_width s, vcanvas_height s), (vcanvas_width s, vcanvas_height s))]"
  by (cases "vdepthTexture s") (auto simp: viewer_frame_def vemit_def Let_def passes_append)

lemma viewer_resizeCanvas_passes:
  "passes (vtrace (viewer_resizeCanvas w ht s)) = passes (vtrace s)"
  by (simp add: viewer_resizeCanvas_def vemit_def passes_append)

lemma viewer_passes_match:
  assumes "\<forall>p \<in> set (passes (vtrace s)). fst p = snd p"
  shows "\<forall>p \<in> set (passes (vtrace (viewer_run s evs))). fst p = snd p"
  using assms
proof (induction evs arbitrary: s)
  case Nil
  then show ?case by (simp add: viewer_run_def)
next
  case (Cons ev evs)
  have "\<forall>p \<in> set (passes (vtrace (viewer_step s ev))). fst p = snd p"
    using Cons.prems
    by (cases ev) (auto simp: viewer_frame_passes viewer_resizeCanvas_passes)
  from Cons.IH [OF this] show ?case
    by (simp add: viewer_run_def)
qed

lemma viewer_depth_follows_resize:
  "passes (vtrace (viewer_run (viewer_started 300 150) [VResize 400 200, VFrame 16]))
     = [((400, 200), (400, 200))]"
  by (simp add: viewer_run_def viewer_frame_passes viewer_resizeCanvas_def vemit_def
      passes_append) (simp add: viewer_started_def)

subsection \<open>Start-up without a GPU\<close>

text \<open>
  The case the scripts handle: on a page that has the message element and the canvas, a
  start-up without \<open>navigator.gpu\<close> shows the message, hides the canvas and returns, in
  both scripts. No buffer is created or written, no shader module or pipeline is built,
  no pass or draw is recorded, no exception is thrown, and no frame callback, timer or
  fetch is set up that could do so later.
\<close>

lemma missing_navigator_gpu_handled:
  assumes "\<not> gpu h" and "message_el h" and "canvas_el h"
  shows "\<exists>tr. initVisualization h = Unsupported tr \<and> initWebGPU h = Unsupported tr \<and>
           tr = [ShowMessage, HideCanvas] \<and>
           (\<forall>b. CreateBuffer b \<notin> set tr \<and> WriteBuffer b \<notin> set tr) \<and>
           CreateShaderModule \<notin> set tr \<and> CreateRenderPipeline \<notin> set tr \<and>
           passes tr = [] \<and> draws tr = [] \<and>
           RequestAnimationFrame \<notin> set tr \<and> SetInterval \<notin> set tr \<and> Fetch \<notin> set tr"
  using assms by (simp add: initVisualization_def initWebGPU_def)

text \<open>
  Claim C7 fails when the GPU is missing in the other way: \<open>navigator.gpu\<close> is there
  and \<open>requestAdapter()\<close> resolves to \<open>null\<close>. Both scripts then call
  \<open>requestDevice\<close> on \<open>null\<close> (line 16 of visualization.js, line 13 of the viewer
  script): a \<open>TypeError\<close> is thrown, and the message has not been shown nor the canvas
  hidden.
\<close>

theorem no_adapter_throws_without_message:
  "initVisualization
     \<lparr>gpu = True, adapter = False, message_el = True, canvas_el = True,
      client_pixels = (300, 150)\<rparr> = Threw TypeError [] \<and>
   initWebGPU
     \<lparr>gpu = True, adapter = False, message_el = True, canvas_el = True,
      client_pixels = (300, 150)\<rparr> = Threw TypeError []"
  by (simp add: initVisualization_def initWebGPU_def)

subsection \<open>The depth range of the projection\<close>

lemma perspective_clip:
  "clip_z (perspective fov aspect near far) (0, 0, z)
     = (far + near) * (1 / (near - far)) * z + 2 * far * near * (1 / (near - far))"
  "clip_w (perspective fov aspect near far) (0, 0, z) = - z"
  by (simp_all add: perspective_def clip_z_def clip_w_def Let_def)

text \<open>
  Claim C2, as amended. For every field of view, every \<open>aspect > 0\<close> and every
  \<open>0 < near < far\<close>, the point of the centre axis on the far plane gets depth 1 and
  the point of the centre axis on the near plane gets depth \<open>-1\<close>.
\<close>

theorem perspective_depth_range:
  assumes "0 < aspect" and "0 < near" and "near < far"
  shows "depth (perspective fov aspect near far) (0, 0, - far) = 1 \<and>
         depth (perspective fov aspect near far) (0, 0, - near) = - 1"
proof -
  have d: "near - far \<noteq> 0" and f: "far \<noteq> 0" and n: "near \<noteq> 0"
    using assms by simp_all
  define nf where "nf = 1 / (near - far)"
  have one: "(near - far) * nf = 1"
    using d by (simp add: nf_def)
  have "(far + near) * nf * (- far) + 2 * far * near * nf = far * ((near - far) * nf)"
    by (simp add: algebra_simps)
  then have zf: "clip_z (perspective fov aspect near far) (0, 0, - far) = far"
    unfolding perspective_clip nf_def [symmetric] by (simp only: one mult_1_right)
  have "(far + near) * nf * (- near) + 2 * far * near * nf = - near * ((near - far) * nf)"
    by (simp add: algebra_simps)
  then have zn: "clip_z (perspective fov aspect near far) (0, 0, - near) = - near"
    unfolding perspective_clip nf_def [symmetric] by (simp only: one mult_1_right)
  have wf: "clip_w (perspective fov aspect near far) (0, 0, - far) = far"
    and wn: "clip_w (perspective fov aspect near far) (0, 0, - near) = near"
    by (simp_all add: perspective_clip)
  show ?thesis
    using f n by (simp add: depth_def zf zn wf wn)
qed

text \<open>The planes at 1 and 3.\<close>

theorem perspective_depth_range_witness:
  "(0::real) < 1 \<and> (1::real) < 3 \<and>
   depth (perspective (pi / 4) 1 1 3) (0, 0, - 3) = 1 \<and>
   depth (perspective (pi / 4) 1 1 3) (0, 0, - 1) = - 1"
proof -
  have a: "(0::real) < 1" and b: "(1::real) < 3"
    by simp_all
  from perspective_depth_range [OF a a b, of "pi / 4"] a b show ?thesis
    by simp
qed

text \<open>
  Claim C2 as stated fails: with the planes at 1 and 3 the near plane's centre
  gets depth \<open>-1\<close>, not 0.
\<close>

theorem near_plane_depth_not_zero:
  "(0::real) < 1 \<and> (1::real) < 3 \<and>
   depth (perspective (pi / 4) 1 1 3) (0, 0, - 1) = - 1 \<and> (- 1 :: real) \<noteq> 0"
  by (simp add: depth_def perspective_clip)

subsection \<open>The two copies of the matrix product\<close>

lemma viewer_multiply_unfolded:
  "viewer_multiply a b =
     [a ! 0 * b ! 0 + a ! 4 * b ! 1 + a ! 8 * b ! 2 + a ! 12 * b ! 3,
      a ! 1 * b ! 0 + a ! 5 * b ! 1 + a ! 9 * b ! 2 + a ! 13 * b ! 3,
      a ! 2 * b ! 0 + a ! 6 * b ! 1 + a ! 10 * b ! 2 + a ! 14 * b ! 3,
      a ! 3 * b ! 0 + a ! 7 * b ! 1 + a ! 11 * b ! 2 + a ! 15 * b ! 3,
      a ! 0 * b ! 4 + a ! 4 * b ! 5 + a ! 8 * b ! 6 + a ! 12 * b ! 7,
      a ! 1 * b ! 4 + a ! 5 * b ! 5 + a ! 9 * b ! 6 + a ! 13 * b ! 7,
      a ! 2 * b ! 4 + a ! 6 * b ! 5 + a ! 10 * b ! 6 + a ! 14 * b ! 7,
      a ! 3 * b ! 4 + a ! 7 * b ! 5 + a ! 11 * b ! 6 + a ! 15 * b ! 7,
      a ! 0 * b ! 8 + a ! 4 * b ! 9 + a ! 8 * b ! 10 + a ! 12 * b ! 11,
      a ! 1 * b ! 8 + a ! 5 * b ! 9 + a ! 9 * b ! 10 + a ! 13 * b ! 11,
      a ! 2 * b ! 8 + a ! 6 * b ! 9 + a ! 10 * b ! 10 + a ! 14 * b ! 11,
      a ! 3 * b ! 8 + a ! 7 * b ! 9 + a ! 11 * b ! 10 + a ! 15 * b ! 11,
      a ! 0 * b ! 12 + a ! 4 * b ! 13 + a ! 8 * b ! 14 + a ! 12 * b ! 15,
      a ! 1 * b ! 12 + a ! 5 * b ! 13 + a ! 9 * b ! 14 + a ! 13 * b ! 15,
      a ! 2 * b ! 12 + a ! 6 * b ! 13 + a ! 10 * b ! 14 + a ! 14 * b ! 15,
      a ! 3 * b ! 12 + a ! 7 * b ! 13 + a ! 11 * b ! 14 + a ! 15 * b ! 15]"
proof -
  have u: "[0..<4] = [0, 1, 2, 3]"
    by (simp add: upt_rec)
  have r: "replicate 16 (0::real) = [0, 0, 0, 0, 0, 0, 0, 0, 0, 0, 0, 0, 0, 0, 0, 0]"
    by (simp add: numeral_eq_Suc)
  show ?thesis
    unfolding viewer_multiply_def u r
    by (simp add: viewer_multiply_pass_def Let_def)
qed

lemma multiply_is_viewer_multiply_swapped:
  assumes "length a = 16" and "length b = 16"
  shows "multiply a b = viewer_multiply b a"
  unfolding viewer_multiply_unfolded
  by (simp add: multiply_def Let_def mult.commute)

text \<open>
  Claim C3 fails: the two copies of \<open>multiply\<close> differ. For \<open>a\<close> with a single 1
  at index 1 and \<open>b\<close> with a single 1 at index 4, the bar chart's copy puts the 1 at
  index 0 and the viewer's copy puts it at index 5. The bar chart's copy is the
  viewer's with the arguments swapped (lemma \<open>multiply_is_viewer_multiply_swapped\<close>).
\<close>

theorem multiply_copies_differ:
  "multiply [0, 1, 0, 0, 0, 0, 0, 0, 0, 0, 0, 0, 0, 0, 0, 0]
            [0, 0, 0, 0, 1, 0, 0, 0, 0, 0, 0, 0, 0, 0, 0, 0]
     = [1, 0, 0, 0, 0, 0, 0, 0, 0, 0, 0, 0, 0, 0, 0, 0] \<and>
   viewer_multiply [0, 1, 0, 0, 0, 0, 0, 0, 0, 0, 0, 0, 0, 0, 0, 0]
                   [0, 0, 0, 0, 1, 0, 0, 0, 0, 0, 0, 0, 0, 0, 0, 0]
     = [0, 0, 0, 0, 0, 1, 0, 0, 0, 0, 0, 0, 0, 0, 0, 0]"
  unfolding viewer_multiply_unfolded
  by (simp add: multiply_def Let_def)

subsection \<open>The magnitudes of a failed fetch\<close>

lemma fetchDataAndUpdate_binds_magnitudes:
  "fetchDataAndUpdate pf outcome rnd s = updateInstanceScales (magnitudes pf outcome rnd) s"
  by (simp add: fetchDataAndUpdate_def magnitudes_def updateInstanceScales_Inr
      split: option.split prod.split)

lemma try_values_fallback:
  "extraction_fails outcome \<Longrightarrow> try_values pf outcome rnd = None"
  by (auto simp: extraction_fails_def try_values_def usd_values_def
      split: option.splits if_splits sum.splits)

text \<open>The array of lines 283 to 285 when the rate is replaced by a random one.\<close>

lemma try_values_random_rate:
  assumes "\<not> extraction_fails outcome" and "\<not> well_formed pf outcome"
  shows "try_values pf outcome rnd =
           Some (map (\<lambda>j. rnd 0 * 50000 * (8 / 10 + rnd j * (4 / 10))) [1..<1 + barCount],
                 1 + barCount)"
proof -
  from assms(1) obtain resp data where
    o: "outcome = Some resp" and ok: "ok resp" and b: "body resp = Some data"
    and ni: "\<not> isl (rate_text data)"
    by (auto simp: extraction_fails_def split: option.splits if_splits)
  from ni obtain tx where r: "rate_text data = Inr tx"
    by (cases "rate_text data") auto
  have p: "(case tx of None \<Rightarrow> NaN | Some t \<Rightarrow> pf t) = NaN
         \<or> (case tx of None \<Rightarrow> NaN | Some t \<Rightarrow> pf t) = Number 0"
    using assms(2) o ok b r
    by (auto simp: well_formed_def split: option.splits jsnum.splits)
  then show ?thesis
    using o ok b r by (auto simp: try_values_def usd_values_def Let_def)
qed

lemma random_rate_bounds:
  fixes a r :: real
  assumes "0 \<le> a" "a < 1" "0 \<le> r" "r < 1"
  shows "0 \<le> a * 50000 * (8 / 10 + r * (4 / 10))" and "a * 50000 * (8 / 10 + r * (4 / 10)) < 60000"
proof -
  have f0: "0 \<le> 8 / 10 + r * (4 / 10)" and f1: "8 / 10 + r * (4 / 10) < 12 / 10"
    using assms(3,4) by simp_all
  show "0 \<le> a * 50000 * (8 / 10 + r * (4 / 10))"
    using assms(1) f0 by simp
  have "a * 50000 * (8 / 10 + r * (4 / 10)) \<le> a * 50000 * (12 / 10)"
    using assms(1) f1 by (intro mult_left_mono) simp_all
  also have "\<dots> < 60000"
    using assms(2) by simp
  finally show "a * 50000 * (8 / 10 + r * (4 / 10)) < 60000" .
qed

text \<open>
  Claim C4, as amended. With random draws in \<open>[0, 1)\<close>, for every outcome other
  than a well-formed successful response, \<open>fetchDataAndUpdate\<close> ends without an
  exception and hands \<open>barCount\<close> magnitudes to \<open>updateInstanceScales\<close>. They lie in
  \<open>[0, 100)\<close> when the local fallback is reached (network error, non-success status,
  body that is not JSON, extraction that throws), and in \<open>[0, 60000)\<close> when the body
  is JSON but gives no usable rate: the rate is then replaced by a random one below 50000.
\<close>

theorem fetch_failure_magnitudes:
  assumes rnd: "\<forall>j. 0 \<le> rnd j \<and> rnd j < 1"
    and bad: "\<not> well_formed pf outcome"
  shows "\<exists>s'. fetchDataAndUpdate pf outcome rnd s = Inr s' \<and>
           updateInstanceScales (magnitudes pf outcome rnd) s = Inr s' \<and>
           length (magnitudes pf outcome rnd) = barCount \<and>
           (if extraction_fails outcome
            then \<forall>v \<in> set (magnitudes pf outcome rnd). 0 \<le> v \<and> v < 100
            else \<forall>v \<in> set (magnitudes pf outcome rnd). 0 \<le> v \<and> v < 60000)"
proof -
  obtain s' where s': "updateInstanceScales (magnitudes pf outcome rnd) s = Inr s'"
    by (simp add: updateInstanceScales_Inr)
  then have run: "fetchDataAndUpdate pf outcome rnd s = Inr s'"
    by (simp add: fetchDataAndUpdate_binds_magnitudes)
  show ?thesis
  proof (cases "extraction_fails outcome")
    case True
    then have m: "magnitudes pf outcome rnd = randomValues rnd 0"
      by (simp add: magnitudes_def try_values_fallback)
    have "\<forall>v \<in> set (randomValues rnd 0). 0 \<le> v \<and> v < 100"
      using rnd by (auto simp: randomValues_def)
    then show ?thesis
      using True s' run m by (simp add: randomValues_def)
  next
    case False
    then have m: "magnitudes pf outcome rnd
        = map (\<lambda>j. rnd 0 * 50000 * (8 / 10 + rnd j * (4 / 10))) [1..<1 + barCount]"
      using bad by (simp add: magnitudes_def try_values_random_rate)
    have "0 \<le> rnd 0 * 50000 * (8 / 10 + rnd j * (4 / 10)) \<and>
          rnd 0 * 50000 * (8 / 10 + rnd j * (4 / 10)) < 60000" for j
      using rnd random_rate_bounds [of "rnd 0" "rnd j"] by blast
    then have "\<forall>v \<in> set (magnitudes pf outcome rnd). 0 \<le> v \<and> v < 60000"
      unfolding m by auto
    then show ?thesis
      using False s' run m by simp
  qed
qed

text \<open>A network error, every random draw 1/2.\<close>

theorem fetch_failure_magnitudes_witness:
  "\<not> well_formed (\<lambda>t. NaN) None \<and>
   extraction_fails None \<and>
   (\<exists>s'. fetchDataAndUpdate (\<lambda>t. NaN) None (\<lambda>j. 1 / 2) (started 300 150) = Inr s') \<and>
   length (magnitudes (\<lambda>t. NaN) None (\<lambda>j. 1 / 2)) = barCount \<and>
   list_all (\<lambda>v. 0 \<le> v \<and> v < 100) (magnitudes (\<lambda>t. NaN) None (\<lambda>j. 1 / 2))"
proof -
  have a: "\<forall>j::nat. (0::real) \<le> 1 / 2 \<and> (1 / 2 :: real) < 1"
    by simp
  have b: "\<not> well_formed (\<lambda>t. NaN) None"
    by (simp add: well_formed_def)
  have c: "extraction_fails None"
    by (simp add: extraction_fails_def)
  from fetch_failure_magnitudes [of "\<lambda>j. 1 / 2", OF a b, of "started 300 150"] b c
  show ?thesis
    by (auto simp: list_all_iff)
qed

text \<open>
  Claim C4 as stated fails for a successful response whose body is the empty object:
  with every random draw 1/2 the first magnitude is 25000.
\<close>

theorem missing_rate_gives_large_magnitudes:
  "\<not> well_formed (\<lambda>t. NaN) (Some \<lparr>ok = True, body = Some (JObject [])\<rparr>) \<and>
   magnitudes (\<lambda>t. NaN) (Some \<lparr>ok = True, body = Some (JObject [])\<rparr>) (\<lambda>j. 1 / 2) ! 0 = 25000 \<and>
   \<not> (25000 :: real) < 100"
  by (simp add: well_formed_def magnitudes_def try_values_def usd_values_def rate_text_def
      Let_def barCount_def upt_rec)

end
